theory Spec2Isabelle
  imports Main
begin

section \<open>JavaScript operators used by the cart code\<close>

text \<open>
  Numbers of the source (ids, quantities, prices in minor units, epoch milliseconds) are
  modelled as mathematical integers. A value that may be \<open>undefined\<close> or \<open>null\<close> is an
  \<open>option\<close>. The three operators below are the ones the reducers and selectors apply to
  such values.
\<close>

definition js_or :: "int option \<Rightarrow> int option \<Rightarrow> int option" where
  \<comment> \<open>\<open>a || b\<close> on numbers: \<open>a\<close> when it is truthy (defined and not 0), otherwise \<open>b\<close>\<close>
  "js_or a b = (case a of None \<Rightarrow> b | Some v \<Rightarrow> if v \<noteq> 0 then Some v else b)"

definition js_or_num :: "int option \<Rightarrow> int \<Rightarrow> int" where
  \<comment> \<open>\<open>a || n\<close> where the right operand is a number\<close>
  "js_or_num a n = (case a of None \<Rightarrow> n | Some v \<Rightarrow> if v \<noteq> 0 then v else n)"

definition js_nullish :: "'a option \<Rightarrow> 'a \<Rightarrow> 'a" where
  \<comment> \<open>\<open>a ?? b\<close>: \<open>a\<close> unless it is \<open>undefined\<close> or \<open>null\<close>\<close>
  "js_nullish a b = (case a of None \<Rightarrow> b | Some v \<Rightarrow> v)"

definition js_or_true :: "bool option \<Rightarrow> bool" where
  \<comment> \<open>\<open>a || true\<close> on an optional boolean\<close>
  "js_or_true a = (case a of None \<Rightarrow> True | Some v \<Rightarrow> v \<or> True)"

definition at_index :: "'a list \<Rightarrow> nat \<Rightarrow> 'a option" where
  \<comment> \<open>\<open>xs[i]\<close>: \<open>undefined\<close> out of range\<close>
  "at_index xs i = (if i < length xs then Some (xs ! i) else None)"

fun findIndex :: "('a \<Rightarrow> bool) \<Rightarrow> 'a list \<Rightarrow> nat option" where
  \<comment> \<open>\<open>Array.prototype.findIndex\<close>; \<open>None\<close> stands for \<open>-1\<close>\<close>
  "findIndex P [] = None"
| "findIndex P (x # xs) = (if P x then Some 0 else map_option Suc (findIndex P xs))"

section \<open>Data model of the cart slice\<close>

text \<open>\<open>IProducts\<close>: one cart line.\<close>

record IProducts =
  pid :: int
  quantity :: int
  selected :: bool

text \<open>
  \<open>IProductsEntity\<close>: the part of the catalogue entity that the cart reads. Every field
  may be missing (the initial delivery is the empty object). \<open>sale_value\<close>,
  \<open>price_value\<close> and \<open>units_product_value\<close> stand for
  \<open>attributeValues?.sale?.value\<close>, \<open>attributeValues?.price?.value\<close> and
  \<open>attributeValues?.units_product?.value\<close>.
\<close>

record IProductsEntity =
  eid :: "int option"
  statusIdentifier :: "string option"
  sale_value :: "int option"
  price_value :: "int option"
  units_product_value :: "int option"
  price :: "int option"

record DeliveryData =
  date :: int
  time :: string
  address :: string
  interval :: "int list option"

record CartState =
  products :: "IProductsEntity list"
  productsData :: "IProducts list"
  currency :: "string option"
  delivery :: IProductsEntity
  deliveryData :: DeliveryData
  transitionId :: int
  total_amount :: int
  version :: int

definition emptyEntity :: IProductsEntity where
  "emptyEntity = \<lparr>eid = None, statusIdentifier = None, sale_value = None,
     price_value = None, units_product_value = None, price = None\<rparr>"

definition initialState :: "int \<Rightarrow> CartState" where
  \<comment> \<open>the argument is the clock reading \<open>new Date().getTime()\<close>\<close>
  "initialState now = \<lparr>products = [], productsData = [], currency = None,
     delivery = emptyEntity,
     deliveryData = \<lparr>date = now, time = [], address = [], interval = Some []\<rparr>,
     transitionId = 0, total_amount = 0, version = 0\<rparr>"

section \<open>Reducers\<close>

definition addProductToCart :: "CartState \<Rightarrow> int \<Rightarrow> bool \<Rightarrow> int \<Rightarrow> CartState" where
  \<comment> \<open>payload \<open>{id, selected, quantity}\<close>\<close>
  "addProductToCart state p_id p_selected p_quantity =
     (case findIndex (\<lambda>product. pid product = p_id) (productsData state) of
        None \<Rightarrow>
          state\<lparr>productsData := productsData state @
            [\<lparr>pid = p_id, quantity = max 1 p_quantity, selected = p_selected\<rparr>]\<rparr>
      | Some index \<Rightarrow>
          (let cur = at_index (productsData state) index in
           state\<lparr>productsData := (productsData state)[index :=
             \<lparr>pid = js_or_num (map_option pid cur) p_id,
              quantity = max 1 (js_or_num (map_option quantity cur) 0 + p_quantity),
              selected = js_nullish (map_option selected cur) True\<rparr>]\<rparr>))"

definition addProductsToCart :: "CartState \<Rightarrow> IProductsEntity list \<Rightarrow> CartState" where
  "addProductsToCart state payload = state\<lparr>products := payload\<rparr>"

definition increaseProductQty :: "CartState \<Rightarrow> int \<Rightarrow> int \<Rightarrow> int \<Rightarrow> CartState" where
  \<comment> \<open>payload \<open>{units, id, quantity}\<close>\<close>
  "increaseProductQty state p_units p_id p_quantity =
     (case findIndex (\<lambda>product. pid product = p_id) (productsData state) of
        None \<Rightarrow>
          state\<lparr>productsData := productsData state @
            [\<lparr>pid = p_id, quantity = 1, selected = True\<rparr>]\<rparr>
      | Some index \<Rightarrow>
          (let cur = at_index (productsData state) index;
               qty = js_or_num (map_option quantity cur) 0 + p_quantity;
               clampedQty = min qty p_units in
           state\<lparr>productsData := (productsData state)[index :=
             \<lparr>pid = js_or_num (map_option pid cur) p_id,
              quantity = clampedQty,
              selected = js_or_true (map_option selected cur)\<rparr>]\<rparr>))"

definition decreaseProductQty :: "CartState \<Rightarrow> int \<Rightarrow> int \<Rightarrow> CartState" where
  \<comment> \<open>payload \<open>{id, quantity}\<close>\<close>
  "decreaseProductQty state p_id p_quantity =
     (case findIndex (\<lambda>product. pid product = p_id) (productsData state) of
        None \<Rightarrow> state
      | Some index \<Rightarrow>
          (let cur = at_index (productsData state) index;
               qty = js_or_num (map_option quantity cur) 0 - p_quantity in
           if qty \<le> 0 then
             state\<lparr>productsData := filter (\<lambda>item. pid item \<noteq> p_id) (productsData state)\<rparr>
           else
             state\<lparr>productsData := (productsData state)[index :=
               \<lparr>pid = js_or_num (map_option pid cur) p_id,
                quantity = qty,
                selected = js_nullish (map_option selected cur) True\<rparr>]\<rparr>))"

definition setProductQty :: "CartState \<Rightarrow> int \<Rightarrow> int \<Rightarrow> int \<Rightarrow> CartState" where
  \<comment> \<open>payload \<open>{units, id, quantity}\<close>\<close>
  "setProductQty state p_units p_id p_quantity =
     (let index = findIndex (\<lambda>product. pid product = p_id) (productsData state);
          qty = p_quantity in
      if qty \<le> 0 then
        state\<lparr>productsData := filter (\<lambda>item. pid item \<noteq> p_id) (productsData state)\<rparr>
      else
        (let clampedQty = min qty p_units in
         case index of
           Some i \<Rightarrow>
             (let cur = at_index (productsData state) i in
              state\<lparr>productsData := (productsData state)[i :=
                \<lparr>pid = js_or_num (map_option pid cur) p_id,
                 quantity = clampedQty,
                 selected = js_nullish (map_option selected cur) True\<rparr>]\<rparr>)
         | None \<Rightarrow>
             state\<lparr>productsData := productsData state @
               [\<lparr>pid = p_id, quantity = clampedQty, selected = True\<rparr>]\<rparr>))"

definition removeProduct :: "CartState \<Rightarrow> int \<Rightarrow> CartState" where
  "removeProduct state payload =
     state\<lparr>productsData := filter (\<lambda>item. pid item \<noteq> payload) (productsData state)\<rparr>"

definition deselectProduct :: "CartState \<Rightarrow> int \<Rightarrow> CartState" where
  "deselectProduct state payload =
     state\<lparr>productsData := map (\<lambda>product.
        if pid product = payload then product\<lparr>selected := \<not> selected product\<rparr>
        else product) (productsData state)\<rparr>"

definition removeAllProducts :: "CartState \<Rightarrow> CartState" where
  \<comment> \<open>the two fields are reset to those of the initial state, which are empty arrays\<close>
  "removeAllProducts state =
     (state\<lparr>productsData := productsData (initialState 0)\<rparr>)
       \<lparr>products := products (initialState 0)\<rparr>"

definition addDeliveryToCart :: "CartState \<Rightarrow> IProductsEntity \<Rightarrow> CartState" where
  "addDeliveryToCart state payload = state\<lparr>delivery := payload\<rparr>"

definition setDeliveryData ::
  "CartState \<Rightarrow> int \<Rightarrow> string \<Rightarrow> string \<Rightarrow> int list option \<Rightarrow> CartState" where
  \<comment> \<open>payload \<open>{date, time, address, interval?}\<close>; \<open>None\<close> is an omitted interval\<close>
  "setDeliveryData state p_date p_time p_address p_interval =
     (let s1 = state\<lparr>deliveryData := (deliveryData state)\<lparr>date := p_date\<rparr>\<rparr>;
          s2 = s1\<lparr>deliveryData := (deliveryData s1)\<lparr>time := p_time\<rparr>\<rparr>;
          s3 = s2\<lparr>deliveryData := (deliveryData s2)\<lparr>address := p_address\<rparr>\<rparr> in
      case p_interval of
        None \<Rightarrow> s3
      | Some i \<Rightarrow> s3\<lparr>deliveryData := (deliveryData s3)\<lparr>interval := Some i\<rparr>\<rparr>)"

definition setCartTransition :: "CartState \<Rightarrow> int \<Rightarrow> CartState" where
  "setCartTransition state productId = state\<lparr>transitionId := productId\<rparr>"

definition setCartVersion :: "CartState \<Rightarrow> int \<Rightarrow> CartState" where
  "setCartVersion state payload = state\<lparr>version := payload\<rparr>"

text \<open>The actions of the slice, and the reducer that dispatches on them.\<close>

datatype CartAction =
    AddProductToCart int bool int
  | AddProductsToCart "IProductsEntity list"
  | IncreaseProductQty int int int
  | DecreaseProductQty int int
  | SetProductQty int int int
  | RemoveProduct int
  | DeselectProduct int
  | RemoveAllProducts
  | AddDeliveryToCart IProductsEntity
  | SetDeliveryData int string string "int list option"
  | SetCartTransition int
  | SetCartVersion int

fun cartReducer :: "CartState \<Rightarrow> CartAction \<Rightarrow> CartState" where
  "cartReducer s (AddProductToCart i sel q) = addProductToCart s i sel q"
| "cartReducer s (AddProductsToCart ps) = addProductsToCart s ps"
| "cartReducer s (IncreaseProductQty u i q) = increaseProductQty s u i q"
| "cartReducer s (DecreaseProductQty i q) = decreaseProductQty s i q"
| "cartReducer s (SetProductQty u i q) = setProductQty s u i q"
| "cartReducer s (RemoveProduct i) = removeProduct s i"
| "cartReducer s (DeselectProduct i) = deselectProduct s i"
| "cartReducer s RemoveAllProducts = removeAllProducts s"
| "cartReducer s (AddDeliveryToCart d) = addDeliveryToCart s d"
| "cartReducer s (SetDeliveryData d t a i) = setDeliveryData s d t a i"
| "cartReducer s (SetCartTransition i) = setCartTransition s i"
| "cartReducer s (SetCartVersion v) = setCartVersion s v"

definition dispatchAll :: "CartState \<Rightarrow> CartAction list \<Rightarrow> CartState" where
  "dispatchAll s acts = foldl cartReducer s acts"

section \<open>Selectors\<close>

definition selectCartData :: "CartState \<Rightarrow> IProducts list" where
  "selectCartData state = productsData state"

definition selectCartItems :: "CartState \<Rightarrow> IProductsEntity list" where
  "selectCartItems state = products state"

definition selectCartItemWithIdLength :: "CartState \<Rightarrow> int \<Rightarrow> int" where
  "selectCartItemWithIdLength state i =
     (case find (\<lambda>product. pid product = i) (productsData state) of
        None \<Rightarrow> 0 | Some product \<Rightarrow> quantity product)"

definition isInStock :: "IProductsEntity option \<Rightarrow> bool" where
  \<comment> \<open>\<open>p?.statusIdentifier === 'in_stock' && (p?.attributeValues?.units_product?.value ?? 0) >= 1\<close>\<close>
  "isInStock p \<longleftrightarrow>
     Option.bind p statusIdentifier = Some ''in_stock'' \<and>
     js_nullish (Option.bind p units_product_value) 0 \<ge> 1"

definition unitPrice :: "IProductsEntity option \<Rightarrow> int" where
  \<comment> \<open>\<open>p ? sale || price attribute || p.price || 0 : 0\<close>\<close>
  "unitPrice p =
     (case p of
        None \<Rightarrow> 0
      | Some e \<Rightarrow> js_or_num (js_or (js_or (sale_value e) (price_value e)) (price e)) 0)"

definition selectCartTotal :: "CartState \<Rightarrow> int" where
  "selectCartTotal state =
     foldl (\<lambda>total product.
        if selected product then
          (let p = find (\<lambda>p. eid p = Some (pid product)) (products state) in
           if isInStock p then total + unitPrice p * quantity product else total)
        else total) 0 (productsData state)"

section \<open>Total amount of the cart view\<close>

definition hasProducts :: "IProducts list \<Rightarrow> bool" where
  "hasProducts pd = list_ex (\<lambda>item. selected item) pd"

definition deliveryPrice :: "IProductsEntity \<Rightarrow> int" where
  \<comment> \<open>\<open>delivery?.attributeValues?.price?.value || delivery?.price || 0\<close>\<close>
  "deliveryPrice d = js_or_num (js_or (price_value d) (price d)) 0"

definition cartTotal :: "CartState \<Rightarrow> int" where
  "cartTotal state =
     (if \<not> hasProducts (productsData state) then 0
      else selectCartTotal state + deliveryPrice (delivery state))"

section \<open>Order assembly of the payment page\<close>

record OrderProduct =
  productId :: int
  order_quantity :: int
  order_selected :: bool

definition combinedProducts ::
  "IProductsEntity list option \<Rightarrow> IProductsEntity list \<Rightarrow> IProductsEntity list" where
  \<comment> \<open>the fetched products when there are any, otherwise those of the cart slice\<close>
  "combinedProducts fetched productsItems =
     (case fetched of
        None \<Rightarrow> productsItems
      | Some ps \<Rightarrow> if length ps = 0 then productsItems else ps)"

definition truthy_id :: "IProductsEntity option \<Rightarrow> bool" where
  \<comment> \<open>\<open>deliveryData?.id\<close> used as a condition\<close>
  "truthy_id d \<longleftrightarrow> (case Option.bind d eid of None \<Rightarrow> False | Some i \<Rightarrow> i \<noteq> 0)"

definition productsInOrder ::
  "IProducts list \<Rightarrow> IProductsEntity list \<Rightarrow> IProductsEntity option \<Rightarrow> OrderProduct list" where
  \<comment> \<open>arguments: the cart lines, the combined products, the delivery of the slice\<close>
  "productsInOrder productsCartData combined deliveryEntity =
     (let hasCartItems = list_ex (\<lambda>item. selected item) productsCartData in
      if \<not> hasCartItems \<and> deliveryEntity = None then []
      else
        (let orderProducts =
               map (\<lambda>item. \<lparr>productId = pid item, order_quantity = quantity item,
                               order_selected = selected item\<rparr>)
                 (filter (\<lambda>item.
                    if \<not> selected item then False
                    else (case find (\<lambda>p. eid p = Some (pid item)) combined of
                            None \<Rightarrow> False
                          | Some product \<Rightarrow> isInStock (Some product)))
                  productsCartData) in
         if truthy_id deliveryEntity then
           orderProducts @
             [\<lparr>productId = the (Option.bind deliveryEntity eid), order_quantity = 1,
               order_selected = True\<rparr>]
         else orderProducts))"

section \<open>Delivery intervals of the calendar form\<close>

text \<open>
  Instants are epoch milliseconds. The day.js calls of the source are modelled on a
  runtime whose local time is UTC plus a fixed offset \<open>tz\<close> (in milliseconds):
  \<open>dayjs(d).startOf('day')\<close> is the local midnight at or before \<open>d\<close>,
  \<open>endOf('day')\<close> is the last millisecond of that local day, and \<open>.utc()\<close> keeps the
  instant. \<open>isBefore\<close> and \<open>isAfter\<close> compare instants.
\<close>

definition msPerDay :: int where
  "msPerDay = 86400000"

definition startOfDay :: "int \<Rightarrow> int \<Rightarrow> int" where
  "startOfDay tz t = ((t + tz) div msPerDay) * msPerDay - tz"

definition endOfDay :: "int \<Rightarrow> int \<Rightarrow> int" where
  "endOfDay tz t = startOfDay tz t + msPerDay - 1"

definition filterIntervalsByDate ::
  "int \<Rightarrow> (int \<times> int) list option \<Rightarrow> int \<Rightarrow> (int \<times> int) list" where
  "filterIntervalsByDate tz intervals targetDate =
     (case intervals of
        None \<Rightarrow> []
      | Some ivs \<Rightarrow>
          (let startOfDayUtc = startOfDay tz targetDate;
               endOfDayUtc = endOfDay tz targetDate in
           filter (\<lambda>(ivStart, ivEnd). ivStart < endOfDayUtc \<and> ivEnd > startOfDayUtc) ivs))"

section \<open>Properties stated by the specification\<close>

text \<open>
  The definitions of this section are not code. They write down the wording of the
  specification (and of its amended forms), to be compared with the functions above.
\<close>

subsection \<open>Ledger\<close>

definition quantities_positive :: "CartState \<Rightarrow> bool" where
  \<comment> \<open>every cart line has a quantity of at least 1\<close>
  "quantities_positive st \<longleftrightarrow> list_all (\<lambda>l. 1 \<le> quantity l) (productsData st)"

definition unique_ids :: "CartState \<Rightarrow> bool" where
  \<comment> \<open>at most one cart line per product id\<close>
  "unique_ids st \<longleftrightarrow> distinct (map pid (productsData st))"

fun guarded :: "CartAction \<Rightarrow> bool" where
  \<comment> \<open>actions whose available units are at least 1 and whose increment is not negative\<close>
  "guarded (IncreaseProductQty u i q) \<longleftrightarrow> 1 \<le> u \<and> 0 \<le> q"
| "guarded (SetProductQty u i q) \<longleftrightarrow> 1 \<le> u"
| "guarded _ \<longleftrightarrow> True"

definition clamp_to :: "int \<Rightarrow> int \<Rightarrow> int \<Rightarrow> int" where
  \<comment> \<open>\<open>q\<close> clamped to \<open>[lo, hi]\<close>: raised to \<open>lo\<close>, then capped at \<open>hi\<close>\<close>
  "clamp_to lo hi q = min (max q lo) hi"

definition setQuantity_claim :: "CartState \<Rightarrow> int \<Rightarrow> int \<Rightarrow> int \<Rightarrow> bool" where
  \<comment> \<open>\<open>setQuantity(i, q, mx)\<close> removes the line when \<open>q \<le> 0\<close> and otherwise stores \<open>q\<close>
      clamped to \<open>[1, mx]\<close>: the stored quantity is \<open>mx\<close> when \<open>q > mx\<close>, and it lies
      within \<open>[1, mx]\<close> whenever that interval is not empty\<close>
  "setQuantity_claim st i q mx \<longleftrightarrow>
     (let r = find (\<lambda>l. pid l = i) (productsData (setProductQty st mx i q)) in
      if q \<le> 0 then r = None
      else (case r of
              None \<Rightarrow> False
            | Some l \<Rightarrow> quantity l = clamp_to 1 mx q \<and>
                (mx < q \<longrightarrow> quantity l = mx) \<and>
                (1 \<le> mx \<longrightarrow> 1 \<le> quantity l \<and> quantity l \<le> mx)))"

subsection \<open>Price aggregation\<close>

fun first_nonzero :: "int option list \<Rightarrow> int" where
  \<comment> \<open>the first value that is present and not 0; 0 when there is none\<close>
  "first_nonzero [] = 0"
| "first_nonzero (None # xs) = first_nonzero xs"
| "first_nonzero (Some v # xs) = (if v \<noteq> 0 then v else first_nonzero xs)"

definition stockOk :: "IProductsEntity \<Rightarrow> bool" where
  \<comment> \<open>in stock: status \<open>in_stock\<close> and at least one available unit\<close>
  "stockOk e \<longleftrightarrow>
     statusIdentifier e = Some ''in_stock'' \<and>
     (case units_product_value e of None \<Rightarrow> False | Some u \<Rightarrow> 1 \<le> u)"

definition snapshotOf :: "CartState \<Rightarrow> IProducts \<Rightarrow> IProductsEntity option" where
  \<comment> \<open>the product snapshot matching a cart line by id\<close>
  "snapshotOf st l = find (\<lambda>p. eid p = Some (pid l)) (products st)"

definition countedLines :: "CartState \<Rightarrow> IProducts list" where
  \<comment> \<open>the selected lines whose matching snapshot is in stock\<close>
  "countedLines st =
     filter (\<lambda>l. selected l \<and>
               (case snapshotOf st l of None \<Rightarrow> False | Some e \<Rightarrow> stockOk e))
       (productsData st)"

definition anySelectedInStock :: "CartState \<Rightarrow> bool" where
  "anySelectedInStock st \<longleftrightarrow>
     list_ex (\<lambda>l. selected l \<and>
                (case snapshotOf st l of None \<Rightarrow> False | Some e \<Rightarrow> stockOk e))
       (productsData st)"

definition spec_unitPrice :: "IProductsEntity \<Rightarrow> int" where
  \<comment> \<open>the sale value if present, else the price, else 0\<close>
  "spec_unitPrice e =
     (case sale_value e of
        Some s \<Rightarrow> s
      | None \<Rightarrow> (case price_value e of
                   Some p \<Rightarrow> p
                 | None \<Rightarrow> (case price e of Some p \<Rightarrow> p | None \<Rightarrow> 0)))"

definition spec_subtotal :: "CartState \<Rightarrow> int" where
  "spec_subtotal st =
     sum_list (map (\<lambda>l. (case snapshotOf st l of None \<Rightarrow> 0 | Some e \<Rightarrow> spec_unitPrice e)
                          * quantity l) (countedLines st))"

definition spec_cartTotal :: "CartState \<Rightarrow> int" where
  \<comment> \<open>the delivery price is added if and only if a line is selected and in stock\<close>
  "spec_cartTotal st =
     selectCartTotal st + (if anySelectedInStock st then deliveryPrice (delivery st) else 0)"

subsection \<open>Order assembly\<close>

definition deliveryLine :: "IProductsEntity option \<Rightarrow> OrderProduct list" where
  \<comment> \<open>the extra line item of a delivery product that exists (has a non-zero id)\<close>
  "deliveryLine d =
     (case d of
        None \<Rightarrow> []
      | Some e \<Rightarrow>
          (case eid e of
             None \<Rightarrow> []
           | Some i \<Rightarrow>
               if i \<noteq> 0
               then [\<lparr>productId = i, order_quantity = 1, order_selected = True\<rparr>]
               else []))"

subsection \<open>Delivery intervals\<close>

definition utcStartOfDay :: "int \<Rightarrow> int" where
  "utcStartOfDay t = (t div msPerDay) * msPerDay"

definition utcEndOfDay :: "int \<Rightarrow> int" where
  "utcEndOfDay t = utcStartOfDay t + msPerDay - 1"

definition spec_filterIntervalsForDate :: "(int \<times> int) list \<Rightarrow> int \<Rightarrow> (int \<times> int) list" where
  \<comment> \<open>overlap with the UTC calendar day that contains the target instant\<close>
  "spec_filterIntervalsForDate ivs targetDate =
     filter (\<lambda>(ivStart, ivEnd).
        ivStart < utcEndOfDay targetDate \<and> ivEnd > utcStartOfDay targetDate) ivs"

section \<open>Example inputs\<close>

definition unselected_line_state :: CartState where
  \<comment> \<open>one line, not selected, quantity 2\<close>
  "unselected_line_state = addProductToCart (initialState 0) 7 False 2"

definition sale_zero_state :: CartState where
  \<comment> \<open>one selected line of an in-stock product whose sale value is 0 and whose price is 10\<close>
  "sale_zero_state = (initialState 0)
     \<lparr>products := [\<lparr>eid = Some 1, statusIdentifier = Some ''in_stock'',
          sale_value = Some 0, price_value = Some 10, units_product_value = Some 5,
          price = Some 10\<rparr>],
      productsData := [\<lparr>pid = 1, quantity = 2, selected = True\<rparr>]\<rparr>"

definition example_delivery :: IProductsEntity where
  \<comment> \<open>a delivery product with id 9 and price 5, carrying no stock status\<close>
  "example_delivery = emptyEntity\<lparr>eid := Some 9, price_value := Some 5\<rparr>"

definition out_of_stock_state :: CartState where
  \<comment> \<open>one selected line of a product that is out of stock, and a delivery\<close>
  "out_of_stock_state = (initialState 0)
     \<lparr>products := [\<lparr>eid = Some 1, statusIdentifier = Some ''out_of_stock'',
          sale_value = None, price_value = Some 10, units_product_value = Some 0,
          price = Some 10\<rparr>],
      productsData := [\<lparr>pid = 1, quantity = 1, selected = True\<rparr>],
      delivery := example_delivery\<rparr>"

definition unselected_state :: CartState where
  \<comment> \<open>one line of an in-stock product, not selected, and a delivery\<close>
  "unselected_state = (initialState 0)
     \<lparr>products := [\<lparr>eid = Some 1, statusIdentifier = Some ''in_stock'',
          sale_value = None, price_value = Some 10, units_product_value = Some 3,
          price = Some 10\<rparr>],
      productsData := [\<lparr>pid = 1, quantity = 1, selected = False\<rparr>],
      delivery := example_delivery\<rparr>"

definition three_line_state :: CartState where
  \<comment> \<open>three selected lines: in stock on sale, out of stock, without a snapshot\<close>
  "three_line_state = (initialState 0)
     \<lparr>products := [\<lparr>eid = Some 1, statusIdentifier = Some ''in_stock'',
          sale_value = Some 8, price_value = Some 10, units_product_value = Some 5,
          price = Some 10\<rparr>,
         \<lparr>eid = Some 2, statusIdentifier = Some ''out_of_stock'',
          sale_value = None, price_value = Some 7, units_product_value = Some 0,
          price = None\<rparr>],
      productsData := [\<lparr>pid = 1, quantity = 3, selected = True\<rparr>,
         \<lparr>pid = 2, quantity = 1, selected = True\<rparr>,
         \<lparr>pid = 3, quantity = 4, selected = True\<rparr>]\<rparr>"

definition msPerHour :: int where
  "msPerHour = 3600000"

definition jan_1_2024 :: int where
  \<comment> \<open>2024-01-01T00:00:00Z\<close>
  "jan_1_2024 = 1704067200000"

definition example_interval :: "int \<times> int" where
  \<comment> \<open>2024-01-01T23:00:00Z to 2024-01-02T01:00:00Z\<close>
  "example_interval = (jan_1_2024 + 23 * msPerHour, jan_1_2024 + 25 * msPerHour)"

definition example_target :: int where
  \<comment> \<open>2024-01-02T00:00:00+05:00, which is 2024-01-01T19:00:00Z\<close>
  "example_target = jan_1_2024 + 24 * msPerHour - 5 * msPerHour"

section \<open>Auxiliary lemmas\<close>

subsection \<open>Operators and searches\<close>

lemma js_or_num_zero [simp]: "js_or_num (Some v) 0 = v"
  by (simp add: js_or_num_def)

lemma js_or_num_self [simp]: "js_or_num (Some v) v = v"
  by (simp add: js_or_num_def)

lemma js_nullish_Some [simp]: "js_nullish (Some v) d = v"
  by (simp add: js_nullish_def)

lemma js_or_true_True [simp]: "js_or_true a = True"
  by (simp add: js_or_true_def split: option.splits)

lemma findIndex_None_iff: "findIndex P xs = None \<longleftrightarrow> (\<forall>x \<in> set xs. \<not> P x)"
  by (induction xs) auto

lemma findIndex_SomeD:
  "findIndex P xs = Some i \<Longrightarrow> i < length xs \<and> P (xs ! i) \<and> (\<forall>j<i. \<not> P (xs ! j))"
proof (induction xs arbitrary: i)
  case Nil
  then show ?case by simp
next
  case (Cons x xs)
  show ?case
  proof (cases "P x")
    case True
    with Cons.prems show ?thesis by simp
  next
    case False
    with Cons.prems obtain k where k: "findIndex P xs = Some k" "i = Suc k"
      by auto
    from Cons.IH [OF k(1)] False k(2) show ?thesis
      by (auto simp: less_Suc_eq_0_disj)
  qed
qed

lemma find_as_findIndex: "find P xs = map_option (\<lambda>i. xs ! i) (findIndex P xs)"
  by (induction xs) (auto simp: option.map_comp comp_def)

lemma at_index_found: "findIndex P xs = Some i \<Longrightarrow> at_index xs i = Some (xs ! i)"
  by (simp add: at_index_def findIndex_SomeD)

lemma find_update_found:
  "findIndex P xs = Some i \<Longrightarrow> P y \<Longrightarrow> find P (xs[i := y]) = Some y"
proof (induction xs arbitrary: i)
  case Nil
  then show ?case by simp
next
  case (Cons x xs)
  then show ?case by (cases "P x") auto
qed

lemma find_append_absent:
  "findIndex P xs = None \<Longrightarrow> P y \<Longrightarrow> find P (xs @ [y]) = Some y"
  by (induction xs) (auto split: if_splits)

lemma find_filter_removed: "find P (filter (\<lambda>x. \<not> P x) xs) = None"
  by (induction xs) auto

lemma find_unique_line:
  "distinct (map pid xs) \<Longrightarrow> l \<in> set xs \<Longrightarrow> find (\<lambda>x. pid x = pid l) xs = Some l"
  by (induction xs) (auto simp: image_iff)

lemma line_rebuild:
  "pid l = i \<Longrightarrow>
   \<lparr>pid = i, quantity = q, selected = selected l\<rparr> = (l::IProducts)\<lparr>quantity := q\<rparr>"
  by (cases l) simp

lemma line_rebuild_selected:
  "pid l = i \<Longrightarrow>
   \<lparr>pid = i, quantity = q, selected = True\<rparr> = (l::IProducts)\<lparr>quantity := q, selected := True\<rparr>"
  by (cases l) simp

lemma list_all_update:
  "list_all P xs \<Longrightarrow> P y \<Longrightarrow> list_all P (xs[i := y])"
  using set_update_subset_insert [of xs i y] by (auto simp: list_all_iff)

lemma map_pid_update:
  "k < length xs \<Longrightarrow> pid y = pid (xs ! k) \<Longrightarrow> map pid (xs[k := y]) = map pid xs"
  by (simp add: map_update list_update_same_conv)

subsection \<open>Ledger invariants\<close>

text \<open>
  The reducers keep product ids unique, so "the line of a product" is well defined in
  every state reached from the initial one: it is the line that \<open>find\<close> returns.
\<close>

lemma cartReducer_unique_ids:
  assumes "unique_ids st"
  shows "unique_ids (cartReducer st a)"
proof (cases a)
  case (AddProductToCart i sel q)
  show ?thesis
  proof (cases "findIndex (\<lambda>product. pid product = i) (productsData st)")
    case None
    then have "\<forall>x \<in> set (productsData st). pid x \<noteq> i"
      by (simp add: findIndex_None_iff)
    with assms AddProductToCart None show ?thesis
      by (auto simp: unique_ids_def addProductToCart_def)
  next
    case (Some k)
    with assms AddProductToCart findIndex_SomeD [OF Some] show ?thesis
      by (simp add: unique_ids_def addProductToCart_def Let_def at_index_found
          map_pid_update)
  qed
next
  case (IncreaseProductQty u i q)
  show ?thesis
  proof (cases "findIndex (\<lambda>product. pid product = i) (productsData st)")
    case None
    then have "\<forall>x \<in> set (productsData st). pid x \<noteq> i"
      by (simp add: findIndex_None_iff)
    with assms IncreaseProductQty None show ?thesis
      by (auto simp: unique_ids_def increaseProductQty_def)
  next
    case (Some k)
    with assms IncreaseProductQty findIndex_SomeD [OF Some] show ?thesis
      by (simp add: unique_ids_def increaseProductQty_def Let_def at_index_found
          map_pid_update)
  qed
next
  case (DecreaseProductQty i q)
  show ?thesis
  proof (cases "findIndex (\<lambda>product. pid product = i) (productsData st)")
    case None
    with assms DecreaseProductQty show ?thesis
      by (simp add: decreaseProductQty_def)
  next
    case (Some k)
    with assms DecreaseProductQty findIndex_SomeD [OF Some] show ?thesis
      by (simp add: unique_ids_def decreaseProductQty_def Let_def at_index_found
          map_pid_update distinct_map_filter)
  qed
next
  case (SetProductQty u i q)
  show ?thesis
  proof (cases "findIndex (\<lambda>product. pid product = i) (productsData st)")
    case None
    then have "\<forall>x \<in> set (productsData st). pid x \<noteq> i"
      by (simp add: findIndex_None_iff)
    with assms SetProductQty None show ?thesis
      by (auto simp: unique_ids_def setProductQty_def Let_def distinct_map_filter)
  next
    case (Some k)
    with assms SetProductQty findIndex_SomeD [OF Some] show ?thesis
      by (simp add: unique_ids_def setProductQty_def Let_def at_index_found
          map_pid_update distinct_map_filter)
  qed
next
  case (RemoveProduct i)
  with assms show ?thesis
    by (simp add: unique_ids_def removeProduct_def distinct_map_filter)
next
  case (DeselectProduct i)
  have "map pid (productsData (deselectProduct st i)) = map pid (productsData st)"
    by (simp add: deselectProduct_def if_distrib [of pid])
  with assms DeselectProduct show ?thesis
    by (simp add: unique_ids_def)
next
  case RemoveAllProducts
  then show ?thesis
    by (simp add: unique_ids_def removeAllProducts_def initialState_def)
qed (use assms in \<open>simp_all add: unique_ids_def addProductsToCart_def
      addDeliveryToCart_def setDeliveryData_def setCartTransition_def setCartVersion_def
      Let_def split: option.splits\<close>)

lemma dispatchAll_unique_ids:
  "unique_ids (dispatchAll (initialState now) acts)"
proof -
  have "unique_ids st \<Longrightarrow> unique_ids (foldl cartReducer st acts)" for st
    by (induction acts arbitrary: st) (simp_all add: cartReducer_unique_ids)
  moreover have "unique_ids (initialState now)"
    by (simp add: unique_ids_def initialState_def)
  ultimately show ?thesis
    by (simp add: dispatchAll_def)
qed

text \<open>
  Quantities stay at 1 or above as long as every \<open>increaseProductQty\<close> and
  \<open>setProductQty\<close> carries at least one available unit and no increment is negative.
\<close>

lemma found_quantity_positive:
  "findIndex P xs = Some k \<Longrightarrow> list_all (\<lambda>l. 1 \<le> quantity l) xs \<Longrightarrow> 1 \<le> quantity (xs ! k)"
  using findIndex_SomeD [of P xs k] by (simp add: list_all_length)

lemma cartReducer_quantities_positive:
  assumes "guarded a" and "quantities_positive st"
  shows "quantities_positive (cartReducer st a)"
proof (cases a)
  case (AddProductToCart i sel q)
  with assms(2) show ?thesis
    by (auto simp: quantities_positive_def addProductToCart_def Let_def
        intro!: list_all_update split: option.splits)
next
  case (IncreaseProductQty u i q)
  with assms show ?thesis
    by (auto simp: quantities_positive_def increaseProductQty_def Let_def at_index_found
        dest: found_quantity_positive intro!: list_all_update split: option.splits)
next
  case (DecreaseProductQty i q)
  with assms(2) show ?thesis
    by (auto simp: quantities_positive_def decreaseProductQty_def Let_def list_all_iff
        dest!: set_update_subset_insert [THEN subsetD] split: option.splits)
next
  case (SetProductQty u i q)
  with assms show ?thesis
    by (auto simp: quantities_positive_def setProductQty_def Let_def list_all_iff
        dest!: set_update_subset_insert [THEN subsetD] split: option.splits)
next
  case (RemoveProduct i)
  with assms(2) show ?thesis
    by (auto simp: quantities_positive_def removeProduct_def list_all_iff)
next
  case (DeselectProduct i)
  with assms(2) show ?thesis
    by (auto simp: quantities_positive_def deselectProduct_def list_all_iff)
next
  case RemoveAllProducts
  then show ?thesis
    by (simp add: quantities_positive_def removeAllProducts_def initialState_def)
qed (use assms(2) in \<open>simp_all add: quantities_positive_def addProductsToCart_def
      addDeliveryToCart_def setDeliveryData_def setCartTransition_def setCartVersion_def
      Let_def split: option.splits\<close>)

lemma dispatchAll_quantities_positive:
  "list_all guarded acts \<Longrightarrow> quantities_positive st \<Longrightarrow>
   quantities_positive (dispatchAll st acts)"
  unfolding dispatchAll_def
  by (induction acts arbitrary: st) (simp_all add: cartReducer_quantities_positive)

lemma setProductQty_lookup:
  "find (\<lambda>l. pid l = i) (productsData (setProductQty st u i q)) =
     (if q \<le> 0 then None
      else (case find (\<lambda>l. pid l = i) (productsData st) of
              None \<Rightarrow> Some \<lparr>pid = i, quantity = min q u, selected = True\<rparr>
            | Some l \<Rightarrow> Some (l\<lparr>quantity := min q u\<rparr>)))"
proof (cases "findIndex (\<lambda>l. pid l = i) (productsData st)")
  case None
  then show ?thesis
    by (simp add: setProductQty_def Let_def find_as_findIndex [of _ "productsData st"]
        find_append_absent find_filter_removed)
next
  case (Some k)
  note fd = findIndex_SomeD [OF Some]
  have cur: "at_index (productsData st) k = Some (productsData st ! k)"
    using Some by (rule at_index_found)
  show ?thesis
    using fd
    by (simp add: setProductQty_def Some cur Let_def line_rebuild
        find_update_found [OF Some] find_filter_removed
        find_as_findIndex [of _ "productsData st"])
qed

subsection \<open>Price aggregation\<close>

lemma isInStock_None [simp]: "isInStock None = False"
  by (simp add: isInStock_def)

lemma isInStock_Some [simp]: "isInStock (Some e) = stockOk e"
  by (simp add: isInStock_def stockOk_def js_nullish_def split: option.splits)

lemma unitPrice_first_nonzero:
  "unitPrice p =
     (case p of None \<Rightarrow> 0 | Some e \<Rightarrow> first_nonzero [sale_value e, price_value e, price e])"
  by (simp add: unitPrice_def js_or_def js_or_num_def split: option.splits)

lemma foldl_subtotal:
  "foldl (\<lambda>total product.
        if selected product then
          (let p = find (\<lambda>p. eid p = Some (pid product)) ps in
           if isInStock p then total + unitPrice p * quantity product else total)
        else total) a ls =
   a + sum_list (map (\<lambda>l. unitPrice (find (\<lambda>p. eid p = Some (pid l)) ps) * quantity l)
         (filter (\<lambda>l. selected l \<and> isInStock (find (\<lambda>p. eid p = Some (pid l)) ps)) ls))"
  by (induction ls arbitrary: a) (simp_all add: Let_def)

lemma counted_filter:
  "(selected l \<and> isInStock (find (\<lambda>p. eid p = Some (pid l)) (products st))) =
   (selected l \<and> (case snapshotOf st l of None \<Rightarrow> False | Some e \<Rightarrow> stockOk e))"
  by (simp add: snapshotOf_def split: option.splits)

lemma selectCartTotal_counted:
  "selectCartTotal st =
     sum_list (map (\<lambda>l. unitPrice (snapshotOf st l) * quantity l) (countedLines st))"
  unfolding selectCartTotal_def foldl_subtotal countedLines_def counted_filter
  by (simp add: snapshotOf_def)

lemma countedLines_empty:
  "\<not> anySelectedInStock st \<Longrightarrow> countedLines st = []"
  by (simp add: anySelectedInStock_def countedLines_def list_ex_iff filter_empty_conv)

lemma selectCartTotal_none_counted:
  "\<not> anySelectedInStock st \<Longrightarrow> selectCartTotal st = 0"
  by (simp add: selectCartTotal_counted countedLines_empty)

subsection \<open>Order assembly\<close>

lemma order_filter_eq:
  "(if \<not> selected item then False
    else (case find (\<lambda>p. eid p = Some (pid item)) combined of
            None \<Rightarrow> False
          | Some product \<Rightarrow> isInStock (Some product))) =
   (selected item \<and>
    (case find (\<lambda>p. eid p = Some (pid item)) combined of
       None \<Rightarrow> False | Some e \<Rightarrow> stockOk e))"
  by (simp split: option.splits)

lemma order_map_selected:
  "map (\<lambda>item. \<lparr>productId = pid item, order_quantity = quantity item,
                  order_selected = selected item\<rparr>) (filter (\<lambda>l. selected l \<and> Q l) cart) =
   map (\<lambda>item. \<lparr>productId = pid item, order_quantity = quantity item,
                  order_selected = True\<rparr>) (filter (\<lambda>l. selected l \<and> Q l) cart)"
  by (induction cart) simp_all

lemma truthy_id_deliveryLine:
  "(if truthy_id d
    then xs @ [\<lparr>productId = the (Option.bind d eid), order_quantity = 1,
                 order_selected = True\<rparr>]
    else xs) = xs @ deliveryLine d"
  by (simp add: truthy_id_def deliveryLine_def split: option.splits)

subsection \<open>Day boundaries\<close>

text \<open>
  The boundaries that the interval filter computes enclose the target instant and fall
  on local midnights. On a runtime whose local time is UTC they are the boundaries of
  the UTC day.
\<close>

lemma startOfDay_bounds:
  "startOfDay tz t \<le> t \<and> t \<le> endOfDay tz t \<and> (startOfDay tz t + tz) mod msPerDay = 0"
proof -
  have "(t + tz) div 86400000 * 86400000 \<le> t + tz"
    by simp
  moreover have "t + tz < (t + tz) div 86400000 * 86400000 + 86400000"
    using pos_mod_bound [of 86400000 "t + tz"]
    by (simp add: algebra_simps minus_mod_eq_div_mult [symmetric])
  ultimately show ?thesis
    by (simp add: startOfDay_def endOfDay_def msPerDay_def)
qed

lemma filterIntervalsByDate_utc_runtime:
  "filterIntervalsByDate 0 (Some ivs) t = spec_filterIntervalsForDate ivs t"
  by (simp add: filterIntervalsByDate_def spec_filterIntervalsForDate_def Let_def
      startOfDay_def endOfDay_def utcStartOfDay_def utcEndOfDay_def)

lemma filterIntervalsByDate_example_other_runtimes:
  "filterIntervalsByDate 0 (Some [example_interval]) example_target = [example_interval] \<and>
   filterIntervalsByDate (5 * msPerHour) (Some [example_interval]) example_target =
     [example_interval]"
  by (simp add: filterIntervalsByDate_def Let_def
      startOfDay_def endOfDay_def msPerDay_def
      msPerHour_def jan_1_2024_def example_interval_def example_target_def)

section \<open>Claims\<close>

subsection \<open>Price aggregation\<close>

text \<open>
  Claim C1, as amended. The total shown by the cart is 0 whenever no cart line is
  selected, whatever the delivery price. Whenever at least one line is selected, in stock
  or not, the delivery price is added to the product subtotal. So a cart whose selected
  lines are all out of stock has a total equal to the delivery price (the subtotal being
  0), not a total of 0.
\<close>

theorem cartTotal_delivery_rule:
  "(list_all (\<lambda>l. \<not> selected l) (productsData st) \<longrightarrow> cartTotal st = 0) \<and>
   (list_ex (\<lambda>l. selected l) (productsData st) \<longrightarrow>
      cartTotal st = selectCartTotal st + deliveryPrice (delivery st)) \<and>
   (list_ex (\<lambda>l. selected l) (productsData st) \<and> \<not> anySelectedInStock st \<longrightarrow>
      cartTotal st = deliveryPrice (delivery st))"
  by (auto simp: cartTotal_def hasProducts_def list_all_iff list_ex_iff
      selectCartTotal_none_counted)

theorem cartTotal_delivery_rule_witness:
  "list_all (\<lambda>l. \<not> selected l) (productsData unselected_state) \<and>
   cartTotal unselected_state = 0 \<and>
   list_ex (\<lambda>l. selected l) (productsData out_of_stock_state) \<and>
   \<not> anySelectedInStock out_of_stock_state \<and>
   selectCartTotal out_of_stock_state = 0 \<and>
   cartTotal out_of_stock_state = deliveryPrice (delivery out_of_stock_state)"
proof -
  have a: "list_all (\<lambda>l. \<not> selected l) (productsData unselected_state)"
    by (simp add: unselected_state_def initialState_def)
  have b: "list_ex (\<lambda>l. selected l) (productsData out_of_stock_state)"
    by (simp add: out_of_stock_state_def initialState_def)
  have c: "\<not> anySelectedInStock out_of_stock_state"
    by (simp add: anySelectedInStock_def out_of_stock_state_def initialState_def
        snapshotOf_def stockOk_def)
  have d: "selectCartTotal out_of_stock_state = 0"
    by (simp add: selectCartTotal_def out_of_stock_state_def initialState_def
        stockOk_def Let_def)
  show ?thesis
    using a b c d cartTotal_delivery_rule [of unselected_state]
      cartTotal_delivery_rule [of out_of_stock_state]
    by simp
qed

text \<open>
  The claim as stated (delivery price added if and only if a line is selected and in
  stock) fails on a cart whose only selected line is out of stock: the specification
  gives 0, the cart view gives the delivery price 5.
\<close>

theorem cartTotal_delivery_rule_counterexample:
  "\<not> anySelectedInStock out_of_stock_state \<and>
   deliveryPrice (delivery out_of_stock_state) = 5 \<and>
   cartTotal out_of_stock_state = 5 \<and>
   spec_cartTotal out_of_stock_state = 0"
  by (simp add: anySelectedInStock_def spec_cartTotal_def cartTotal_def hasProducts_def
      selectCartTotal_def deliveryPrice_def out_of_stock_state_def initialState_def
      example_delivery_def emptyEntity_def snapshotOf_def stockOk_def js_or_def
      js_or_num_def Let_def)

text \<open>
  Claim C3, as amended. The product subtotal is the sum, over the selected cart lines
  whose matching snapshot (the first one with the line's id) has status \<open>in_stock\<close> and
  at least one available unit, of unit price times quantity. The unit price is the first
  value that is present and not 0 among the sale value, the price attribute and the
  price of the entity, and 0 when there is none. A selected line without a matching
  snapshot, or whose snapshot fails the stock conditions, is not in the sum.
\<close>

theorem selectCartTotal_sum:
  "selectCartTotal st =
     sum_list (map (\<lambda>l. (case snapshotOf st l of
                            None \<Rightarrow> 0
                          | Some e \<Rightarrow> first_nonzero [sale_value e, price_value e, price e])
                          * quantity l) (countedLines st))"
proof -
  have "selectCartTotal st =
      sum_list (map (\<lambda>l. unitPrice (snapshotOf st l) * quantity l) (countedLines st))"
    by (rule selectCartTotal_counted)
  then show ?thesis
    by (simp only: unitPrice_first_nonzero)
qed

theorem selectCartTotal_sum_witness:
  "countedLines three_line_state = [\<lparr>pid = 1, quantity = 3, selected = True\<rparr>] \<and>
   selectCartTotal three_line_state = 24"
  using selectCartTotal_sum [of three_line_state]
  by (simp add: countedLines_def snapshotOf_def stockOk_def three_line_state_def
      initialState_def)

text \<open>
  The claim as stated takes the sale value whenever it is present. A sale value of 0 is
  present, yet the selector falls through to the price: two units of a product with sale
  value 0 and price 10 count 20, where the stated rule gives 0.
\<close>

theorem selectCartTotal_sum_counterexample:
  "selectCartTotal sale_zero_state = 20 \<and> spec_subtotal sale_zero_state = 0"
  by (simp add: selectCartTotal_def spec_subtotal_def sale_zero_state_def initialState_def
      countedLines_def snapshotOf_def stockOk_def spec_unitPrice_def unitPrice_def
      js_or_def js_or_num_def Let_def)

subsection \<open>Delivery intervals\<close>

text \<open>
  Claim C2. The interval filter is claimed to keep the intervals that overlap the UTC
  calendar day of the target date, whatever the local timezone, and so to keep the
  interval 2024-01-01T23:00Z to 2024-01-02T01:00Z for the target 2024-01-02T00:00+05:00.
  The filter takes the start and the end of the day in local time. On a runtime four
  hours ahead of UTC the local day of the target runs from 2023-12-31T20:00Z to
  2024-01-01T19:59:59.999Z, and the filter drops the interval that the UTC day keeps.
\<close>

theorem filterIntervalsByDate_local_day:
  "startOfDay (4 * msPerHour) example_target = jan_1_2024 - 4 * msPerHour \<and>
   endOfDay (4 * msPerHour) example_target = jan_1_2024 + 20 * msPerHour - 1 \<and>
   filterIntervalsByDate (4 * msPerHour) (Some [example_interval]) example_target = [] \<and>
   spec_filterIntervalsForDate [example_interval] example_target = [example_interval]"
  by (simp add: filterIntervalsByDate_def spec_filterIntervalsForDate_def Let_def
      startOfDay_def endOfDay_def utcStartOfDay_def utcEndOfDay_def msPerDay_def
      msPerHour_def jan_1_2024_def example_interval_def example_target_def)

subsection \<open>Ledger\<close>

text \<open>
  Claim C4. Every cart line is claimed to keep a quantity of at least 1 under every
  sequence of ledger operations with arbitrary arguments. Adding a product and then
  increasing its quantity with zero available units leaves a line of quantity 0 in the
  cart: \<open>increaseProductQty\<close> caps the quantity at the available units and has no floor.
\<close>

theorem quantity_invariant_broken:
  "productsData (dispatchAll (initialState 0)
      [AddProductToCart 1 True 1, IncreaseProductQty 0 1 1]) =
     [\<lparr>pid = 1, quantity = 0, selected = True\<rparr>] \<and>
   \<not> quantities_positive (dispatchAll (initialState 0)
      [AddProductToCart 1 True 1, IncreaseProductQty 0 1 1])"
  by (simp add: quantities_positive_def dispatchAll_def addProductToCart_def
      increaseProductQty_def initialState_def Let_def at_index_def js_or_num_def)

text \<open>
  Claim C5. \<open>setProductQty\<close> removes the line of the product when the quantity is 0 or
  less. Otherwise it stores the quantity clamped to the interval from 1 to the maximum,
  that is, raised to 1 and then capped at the maximum: a quantity above the maximum
  stores the maximum, and for a maximum of at least 1 the stored quantity lies between 1
  and the maximum. This holds for a line that is present, whose id and selected flag
  stay, and for one that is newly inserted, which is selected.
\<close>

theorem setProductQty_clamps:
  "setQuantity_claim st i q mx \<and>
   find (\<lambda>l. pid l = i) (productsData (setProductQty st mx i q)) =
     (if q \<le> 0 then None
      else (case find (\<lambda>l. pid l = i) (productsData st) of
              None \<Rightarrow> Some \<lparr>pid = i, quantity = clamp_to 1 mx q, selected = True\<rparr>
            | Some l \<Rightarrow> Some (l\<lparr>quantity := clamp_to 1 mx q\<rparr>)))"
proof (cases "q \<le> 0")
  case True
  then show ?thesis
    by (simp add: setQuantity_claim_def setProductQty_lookup)
next
  case False
  then have stored: "min q mx = clamp_to 1 mx q"
    by (simp add: clamp_to_def)
  have above: "mx < q \<longrightarrow> clamp_to 1 mx q = mx"
    using False by (simp add: clamp_to_def)
  have inside: "1 \<le> mx \<longrightarrow> 1 \<le> clamp_to 1 mx q \<and> clamp_to 1 mx q \<le> mx"
    by (simp add: clamp_to_def)
  show ?thesis
  proof (cases "find (\<lambda>l. pid l = i) (productsData st)")
    case None
    with False stored above inside show ?thesis
      by (simp add: setQuantity_claim_def setProductQty_lookup)
  next
    case (Some l)
    with False stored above inside show ?thesis
      by (simp add: setQuantity_claim_def setProductQty_lookup)
  qed
qed

theorem setProductQty_clamps_witness:
  "setQuantity_claim unselected_line_state 7 9 5 \<and> (5::int) < 9 \<and> (1::int) \<le> 5 \<and>
   productsData (setProductQty unselected_line_state 5 7 9) =
     [\<lparr>pid = 7, quantity = 5, selected = False\<rparr>] \<and>
   setQuantity_claim unselected_line_state 8 3 5 \<and>
   productsData (setProductQty unselected_line_state 5 8 3) =
     [\<lparr>pid = 7, quantity = 2, selected = False\<rparr>, \<lparr>pid = 8, quantity = 3, selected = True\<rparr>] \<and>
   setQuantity_claim unselected_line_state 7 0 5 \<and>
   productsData (setProductQty unselected_line_state 5 7 0) = [] \<and>
   setQuantity_claim (initialState 0) 7 3 0 \<and> (0::int) < 3 \<and>
   productsData (setProductQty (initialState 0) 0 7 3) =
     [\<lparr>pid = 7, quantity = 0, selected = True\<rparr>]"
  using setProductQty_clamps [of unselected_line_state 7 9 5]
    setProductQty_clamps [of unselected_line_state 8 3 5]
    setProductQty_clamps [of unselected_line_state 7 0 5]
    setProductQty_clamps [of "initialState 0" 7 3 0]
  by (simp add: setProductQty_def unselected_line_state_def addProductToCart_def
      initialState_def Let_def at_index_def)

text \<open>
  Claim C8. \<open>addProductToCart\<close> changes the cart lines only. When the product is absent
  it appends a line with the given selected flag and the quantity \<open>max 1 d\<close>. When the
  product is present it replaces the quantity of its line (the first line with that id)
  by the old quantity plus \<open>d\<close>, floored at 1; the line stays where it is, with its id
  and its selected flag, and every other line is unchanged.
\<close>

theorem addProductToCart_spec:
  "addProductToCart st i sel d =
     st\<lparr>productsData := productsData (addProductToCart st i sel d)\<rparr> \<and>
   (case find (\<lambda>l. pid l = i) (productsData st) of
      None \<Rightarrow>
        productsData (addProductToCart st i sel d) =
          productsData st @ [\<lparr>pid = i, quantity = max 1 d, selected = sel\<rparr>]
    | Some l \<Rightarrow>
        (\<exists>k<length (productsData st).
           productsData st ! k = l \<and> (\<forall>j<k. pid (productsData st ! j) \<noteq> i) \<and>
           productsData (addProductToCart st i sel d) =
             (productsData st)[k := l\<lparr>quantity := max 1 (quantity l + d)\<rparr>]))"
proof (cases "findIndex (\<lambda>l. pid l = i) (productsData st)")
  case None
  then show ?thesis
    by (simp add: addProductToCart_def find_as_findIndex)
next
  case (Some k)
  note fd = findIndex_SomeD [OF Some]
  have cur: "at_index (productsData st) k = Some (productsData st ! k)"
    using Some by (rule at_index_found)
  have upd: "productsData (addProductToCart st i sel d) =
      (productsData st)[k := (productsData st ! k)
         \<lparr>quantity := max 1 (quantity (productsData st ! k) + d)\<rparr>]"
    using fd by (simp add: addProductToCart_def Some cur Let_def line_rebuild)
  have frame: "addProductToCart st i sel d =
     st\<lparr>productsData := productsData (addProductToCart st i sel d)\<rparr>"
    by (simp add: addProductToCart_def Some Let_def)
  show ?thesis
    using fd upd frame by (simp add: find_as_findIndex Some) blast
qed

theorem addProductToCart_spec_witness:
  "find (\<lambda>l. pid l = 7) (productsData (initialState 0)) = None \<and>
   productsData (addProductToCart (initialState 0) 7 False (- 2)) =
     [\<lparr>pid = 7, quantity = 1, selected = False\<rparr>] \<and>
   find (\<lambda>l. pid l = 7) (productsData unselected_line_state) =
     Some \<lparr>pid = 7, quantity = 2, selected = False\<rparr> \<and>
   productsData (addProductToCart unselected_line_state 7 True 3) =
     [\<lparr>pid = 7, quantity = 5, selected = False\<rparr>] \<and>
   productsData (addProductToCart unselected_line_state 7 True (- 9)) =
     [\<lparr>pid = 7, quantity = 1, selected = False\<rparr>]"
  using addProductToCart_spec [of "initialState 0" 7 False "- 2"]
    addProductToCart_spec [of unselected_line_state 7 True 3]
    addProductToCart_spec [of unselected_line_state 7 True "- 9"]
  by (simp add: unselected_line_state_def addProductToCart_def initialState_def Let_def
      at_index_def)

text \<open>
  Claim C9. On the line of a product (the first line with its id),
  \<open>increaseProductQty\<close> sets the selected flag to true, also when it was false, and a line
  that it inserts is selected. \<open>decreaseProductQty\<close> and \<open>setProductQty\<close> on an existing
  line either remove the line or change its quantity only, so the selected flag of a
  line that stays is the one it had.
\<close>

theorem selected_flag_on_quantity_change:
  "(case find (\<lambda>l. pid l = i) (productsData st) of
      None \<Rightarrow>
        find (\<lambda>l. pid l = i) (productsData (increaseProductQty st u i d)) =
          Some \<lparr>pid = i, quantity = 1, selected = True\<rparr>
    | Some l \<Rightarrow>
        find (\<lambda>l. pid l = i) (productsData (increaseProductQty st u i d)) =
          Some (l\<lparr>quantity := min (quantity l + d) u, selected := True\<rparr>) \<and>
        find (\<lambda>l. pid l = i) (productsData (decreaseProductQty st i d)) =
          (if quantity l - d \<le> 0 then None else Some (l\<lparr>quantity := quantity l - d\<rparr>)) \<and>
        find (\<lambda>l. pid l = i) (productsData (setProductQty st u i q)) =
          (if q \<le> 0 then None else Some (l\<lparr>quantity := min q u\<rparr>)))"
proof (cases "findIndex (\<lambda>l. pid l = i) (productsData st)")
  case None
  then show ?thesis
    by (simp add: increaseProductQty_def find_as_findIndex [of _ "productsData st"]
        find_append_absent)
next
  case (Some k)
  note fd = findIndex_SomeD [OF Some]
  let ?l = "productsData st ! k"
  have cur: "at_index (productsData st) k = Some ?l"
    using Some by (rule at_index_found)
  have before: "find (\<lambda>l. pid l = i) (productsData st) = Some ?l"
    by (simp add: find_as_findIndex Some)
  have inc: "find (\<lambda>l. pid l = i) (productsData (increaseProductQty st u i d)) =
      Some (?l\<lparr>quantity := min (quantity ?l + d) u, selected := True\<rparr>)"
    using fd
    by (simp add: increaseProductQty_def Some cur Let_def line_rebuild_selected
        find_update_found [OF Some])
  have dec: "find (\<lambda>l. pid l = i) (productsData (decreaseProductQty st i d)) =
      (if quantity ?l - d \<le> 0 then None else Some (?l\<lparr>quantity := quantity ?l - d\<rparr>))"
    using fd
    by (simp add: decreaseProductQty_def Some cur Let_def line_rebuild
        find_update_found [OF Some] find_filter_removed)
  have setq: "find (\<lambda>l. pid l = i) (productsData (setProductQty st u i q)) =
      (if q \<le> 0 then None else Some (?l\<lparr>quantity := min q u\<rparr>))"
    using before by (simp add: setProductQty_lookup)
  show ?thesis
    by (simp only: before option.case inc dec setq simp_thms)
qed

theorem selected_flag_on_quantity_change_witness:
  "find (\<lambda>l. pid l = 7) (productsData unselected_line_state) =
     Some \<lparr>pid = 7, quantity = 2, selected = False\<rparr> \<and>
   find (\<lambda>l. pid l = 7) (productsData (increaseProductQty unselected_line_state 10 7 1)) =
     Some \<lparr>pid = 7, quantity = 3, selected = True\<rparr> \<and>
   find (\<lambda>l. pid l = 7) (productsData (decreaseProductQty unselected_line_state 7 1)) =
     Some \<lparr>pid = 7, quantity = 1, selected = False\<rparr> \<and>
   find (\<lambda>l. pid l = 7) (productsData (setProductQty unselected_line_state 10 7 4)) =
     Some \<lparr>pid = 7, quantity = 4, selected = False\<rparr> \<and>
   find (\<lambda>l. pid l = 8) (productsData unselected_line_state) = None \<and>
   find (\<lambda>l. pid l = 8) (productsData (increaseProductQty unselected_line_state 10 8 1)) =
     Some \<lparr>pid = 8, quantity = 1, selected = True\<rparr>"
  using selected_flag_on_quantity_change [of 7 unselected_line_state 10 1 4]
    selected_flag_on_quantity_change [of 8 unselected_line_state 10 1 4]
  by (simp add: unselected_line_state_def addProductToCart_def initialState_def)

text \<open>
  Claim C10. \<open>removeAllProducts\<close> empties the cart lines and the product snapshots and
  leaves the delivery product, the delivery data, the transition id, the total, the
  version and the currency as they were.
\<close>

theorem removeAllProducts_frame:
  "productsData (removeAllProducts st) = [] \<and>
   products (removeAllProducts st) = [] \<and>
   delivery (removeAllProducts st) = delivery st \<and>
   deliveryData (removeAllProducts st) = deliveryData st \<and>
   transitionId (removeAllProducts st) = transitionId st \<and>
   total_amount (removeAllProducts st) = total_amount st \<and>
   version (removeAllProducts st) = version st \<and>
   currency (removeAllProducts st) = currency st"
  by (simp add: removeAllProducts_def initialState_def)

theorem removeAllProducts_frame_witness:
  "productsData (removeAllProducts out_of_stock_state) = [] \<and>
   products (removeAllProducts out_of_stock_state) = [] \<and>
   delivery (removeAllProducts out_of_stock_state) = example_delivery \<and>
   deliveryData (removeAllProducts out_of_stock_state) =
     \<lparr>date = 0, time = [], address = [], interval = Some []\<rparr>"
  using removeAllProducts_frame [of out_of_stock_state]
  by (simp add: out_of_stock_state_def initialState_def)

subsection \<open>Delivery selection\<close>

text \<open>
  Claim C7. \<open>setDeliveryData\<close> stores the date, the time and the address of the payload
  whatever they were before. It stores the interval of the payload when there is one and
  keeps the stored interval when the payload has none. No other field of the cart state
  changes.
\<close>

theorem setDeliveryData_frame:
  "deliveryData (setDeliveryData st d t a iv) =
     \<lparr>date = d, time = t, address = a,
      interval = (case iv of None \<Rightarrow> interval (deliveryData st) | Some x \<Rightarrow> Some x)\<rparr> \<and>
   setDeliveryData st d t a iv =
     st\<lparr>deliveryData := deliveryData (setDeliveryData st d t a iv)\<rparr>"
  by (cases iv) (simp_all add: setDeliveryData_def Let_def)

theorem setDeliveryData_frame_witness:
  "deliveryData (setDeliveryData (initialState 0) 1 ''9:00'' ''Main St'' (Some [10, 20])) =
     \<lparr>date = 1, time = ''9:00'', address = ''Main St'', interval = Some [10, 20]\<rparr> \<and>
   deliveryData (setDeliveryData
       (setDeliveryData (initialState 0) 1 ''9:00'' ''Main St'' (Some [10, 20]))
       2 ''10:00'' ''Side St'' None) =
     \<lparr>date = 2, time = ''10:00'', address = ''Side St'', interval = Some [10, 20]\<rparr>"
  using setDeliveryData_frame [of "initialState 0" 1 "''9:00''" "''Main St''" "Some [10, 20]"]
    setDeliveryData_frame [of
      "setDeliveryData (initialState 0) 1 ''9:00'' ''Main St'' (Some [10, 20])"
      2 "''10:00''" "''Side St''" None]
  by simp

subsection \<open>Order assembly\<close>

text \<open>
  Claim C6. The order lines are the selected cart lines whose matching product is in
  stock with at least one available unit, each as product id, quantity and selected =
  true, in cart order, followed by one line of quantity 1 for the delivery product when
  that product exists (has a non-zero id); the stock status of the delivery product is
  not consulted. With an empty cart and a delivery product the order has exactly one
  line, that of the delivery.
\<close>

theorem productsInOrder_spec:
  "productsInOrder cart combined dlv =
     map (\<lambda>l. \<lparr>productId = pid l, order_quantity = quantity l, order_selected = True\<rparr>)
       (filter (\<lambda>l. selected l \<and>
                  (case find (\<lambda>p. eid p = Some (pid l)) combined of
                     None \<Rightarrow> False | Some e \<Rightarrow> stockOk e)) cart)
     @ deliveryLine dlv \<and>
   (eid d = Some i \<and> i \<noteq> 0 \<longrightarrow>
      productsInOrder [] combined (Some d) =
        [\<lparr>productId = i, order_quantity = 1, order_selected = True\<rparr>])"
proof -
  have none_sel: "filter (\<lambda>l. selected l \<and> Q l) cart = []"
    if "\<not> list_ex (\<lambda>item. selected item) cart" for Q
    using that by (simp add: list_ex_iff filter_empty_conv)
  have main: "productsInOrder cart combined dlv =
     map (\<lambda>l. \<lparr>productId = pid l, order_quantity = quantity l, order_selected = True\<rparr>)
       (filter (\<lambda>l. selected l \<and>
                  (case find (\<lambda>p. eid p = Some (pid l)) combined of
                     None \<Rightarrow> False | Some e \<Rightarrow> stockOk e)) cart)
     @ deliveryLine dlv"
  proof (cases "\<not> list_ex (\<lambda>item. selected item) cart \<and> dlv = None")
    case True
    then show ?thesis
      by (simp add: productsInOrder_def Let_def none_sel deliveryLine_def)
  next
    case False
    then show ?thesis
      unfolding productsInOrder_def Let_def order_filter_eq order_map_selected
        truthy_id_deliveryLine
      by auto
  qed
  have single: "productsInOrder [] combined (Some d) =
        [\<lparr>productId = i, order_quantity = 1, order_selected = True\<rparr>]"
    if "eid d = Some i" "i \<noteq> 0"
    using that by (simp add: productsInOrder_def Let_def truthy_id_def)
  from main single show ?thesis by blast
qed

theorem productsInOrder_spec_witness:
  "eid example_delivery = Some 9 \<and> (9::int) \<noteq> 0 \<and>
   statusIdentifier example_delivery = None \<and>
   productsInOrder [] (products three_line_state) (Some example_delivery) =
     [\<lparr>productId = 9, order_quantity = 1, order_selected = True\<rparr>] \<and>
   productsInOrder (productsData three_line_state) (products three_line_state)
       (Some example_delivery) =
     [\<lparr>productId = 1, order_quantity = 3, order_selected = True\<rparr>,
      \<lparr>productId = 9, order_quantity = 1, order_selected = True\<rparr>]"
proof -
  have e: "eid example_delivery = Some 9 \<and> (9::int) \<noteq> 0"
    by (simp add: example_delivery_def emptyEntity_def)
  show ?thesis
    using e productsInOrder_spec [of "productsData three_line_state"
        "products three_line_state" "Some example_delivery" example_delivery 9]
    by (simp add: three_line_state_def initialState_def example_delivery_def
        emptyEntity_def deliveryLine_def stockOk_def)
qed

end
